theory Spec2Isabelle
  imports Main "HOL-Library.Word" "HOL-Library.List_Lexorder" "HOL-Library.Multiset"
begin

section \<open>JavaScript strings\<close>

text \<open>
  A JavaScript string is a sequence of UTF-16 code units; \<open>trim\<close>, \<open>endsWith\<close> and the
  default \<open>sort\<close> all work on code units. Literals of the source are ASCII except for the
  two status marks of the summary, which are one code unit each.
\<close>

type_synonym jschar = "16 word"
type_synonym jsstring = "jschar list"

definition js :: "string \<Rightarrow> jsstring" where
  "js s = map of_char s"

text \<open>
  The code units removed by \<open>String.prototype.trim\<close>: ECMAScript's WhiteSpace
  (TAB, VT, FF, SP, NBSP, ZWNBSP and the Unicode space separators) and LineTerminator
  (LF, CR, LS, PS).
\<close>

definition isWhiteSpace :: "jschar \<Rightarrow> bool" where
  "isWhiteSpace c \<longleftrightarrow>
     c = 0x0009 \<or> c = 0x000A \<or> c = 0x000B \<or> c = 0x000C \<or> c = 0x000D \<or> c = 0x0020 \<or>
     c = 0x00A0 \<or> c = 0x1680 \<or> (0x2000 \<le> c \<and> c \<le> 0x200A) \<or> c = 0x2028 \<or>
     c = 0x2029 \<or> c = 0x202F \<or> c = 0x205F \<or> c = 0x3000 \<or> c = 0xFEFF"

definition trimStart :: "jsstring \<Rightarrow> jsstring" where
  "trimStart s = dropWhile isWhiteSpace s"

definition trimEnd :: "jsstring \<Rightarrow> jsstring" where
  "trimEnd s = rev (dropWhile isWhiteSpace (rev s))"

definition trim :: "jsstring \<Rightarrow> jsstring" where
  "trim s = trimEnd (trimStart s)"

definition endsWith :: "jsstring \<Rightarrow> jsstring \<Rightarrow> bool" where
  "endsWith s searchString \<longleftrightarrow>
     length searchString \<le> length s \<and> drop (length s - length searchString) s = searchString"

text \<open>
  \<open>String.prototype.includes\<close>: \<open>searchString\<close> occurs in \<open>s\<close> as a contiguous
  substring.
\<close>

primrec includesStr :: "jsstring \<Rightarrow> jsstring \<Rightarrow> bool" where
  "includesStr [] searchString = (searchString = [])"
| "includesStr (x # xs) searchString =
     (take (length searchString) (x # xs) = searchString \<or> includesStr xs searchString)"

text \<open>
  \<open>String.prototype.repeat\<close>, and the decimal rendering of a number in a template
  literal. Test numbers are integers (the orchestrator passes \<open>i + 1\<close>); the rendering is
  JavaScript's for every integer below \<open>10^21\<close> in absolute value.
\<close>

definition repeat :: "jsstring \<Rightarrow> nat \<Rightarrow> jsstring" where
  "repeat s n = concat (replicate n s)"

fun natToString :: "nat \<Rightarrow> jsstring" where
  "natToString n =
     (if n < 10 then [0x30 + of_nat n]
      else natToString (n div 10) @ [0x30 + of_nat (n mod 10)])"

definition numberToString :: "int \<Rightarrow> jsstring" where
  "numberToString n = (if n < 0 then js ''-'' @ natToString (nat (- n)) else natToString (nat n))"

section \<open>The prompt builder\<close>

text \<open>
  The fixed text of the template literal of \<open>buildTestPrompt\<close> between the interpolated
  timestamp and the interpolated test content.
\<close>

definition instructionBlock :: jsstring where
  "instructionBlock = js
''\<newline>\<newline>Instructions:\<newline>- Follow the test steps below carefully\<newline>- Return your response in JSON format with the following structure:\<newline>  {\<newline>    \"success\": boolean,\<newline>    \"steps_completed\": string[],\<newline>    \"observations\": string,\<newline>    \"final_status\": string\<newline>  }\<newline>\<newline>Test Steps:\<newline>''"

text \<open>
  The template literal, trimmed. \<open>currentDateTime\<close> is the value of
  \<open>new Date().toISOString()\<close>.
\<close>

definition promptTemplate :: "jsstring \<Rightarrow> jsstring \<Rightarrow> jsstring" where
  "promptTemplate currentDateTime testContent =
     trim (js ''\<newline>Current Date/Time: '' @ currentDateTime @ instructionBlock
           @ testContent @ js ''\<newline>'')"

section \<open>Thrown values, the platform and the console\<close>

text \<open>
  What a rejected \<open>await\<close> or a failing call throws: an instance of \<open>Error\<close> with its
  \<open>message\<close>; or any other value, given by what \<open>String(v)\<close> does on it, which is to
  return a string or, for a value without a string conversion, to throw in its turn (on
  \<open>Object.create(null)\<close>, a \<open>TypeError\<close>).
\<close>

datatype thrown = ErrorObject jsstring | NonError jsstring | Unconvertible thrown

text \<open>
  The process state: the world outside the program (file system, clock, the agent and its
  servers), of an arbitrary type \<open>'w\<close>, and what has been written to the console.
\<close>

record 'w state =
  world :: 'w
  stdout :: "jsstring list"
  stderr :: "jsstring list"

text \<open>
  The library functions the class calls: \<open>fs.readdir\<close>, \<open>fs.readFile(_, "utf-8")\<close>,
  \<open>new Date().toISOString()\<close>, \<open>path.join\<close>, \<open>path.basename\<close>, and the rendering the
  console gives to a second argument (a result of the agent, a caught value). The two
  file-system calls may change the world and may throw. Rendering a value may throw as
  well, and then nothing is written.
\<close>

record ('w, 'r) platform =
  readdir :: "jsstring \<Rightarrow> 'w \<Rightarrow> (thrown + jsstring list) \<times> 'w"
  readFile :: "jsstring \<Rightarrow> 'w \<Rightarrow> (thrown + jsstring) \<times> 'w"
  toISOString :: "'w \<Rightarrow> jsstring"
  path_join :: "jsstring \<Rightarrow> jsstring \<Rightarrow> jsstring"
  path_basename :: "jsstring \<Rightarrow> jsstring"
  inspectResult :: "'r \<Rightarrow> thrown + jsstring"
  inspectThrown :: "thrown \<Rightarrow> thrown + jsstring"

definition console_log :: "jsstring \<Rightarrow> 'w state \<Rightarrow> 'w state" where
  "console_log line s = s\<lparr>stdout := stdout s @ [line]\<rparr>"

definition console_error :: "jsstring \<Rightarrow> 'w state \<Rightarrow> 'w state" where
  "console_error line s = s\<lparr>stderr := stderr s @ [line]\<rparr>"

text \<open>\<open>Array.prototype.join\<close> on strings.\<close>

fun joinStrings :: "jsstring \<Rightarrow> jsstring list \<Rightarrow> jsstring" where
  "joinStrings sep [] = []"
| "joinStrings sep [x] = x"
| "joinStrings sep (x # y # ys) = x @ sep @ joinStrings sep (y # ys)"

section \<open>The test agent\<close>

text \<open>
  In a \<open>TestResult\<close>, \<open>result = None\<close> is \<open>null\<close> and \<open>error = None\<close> is an absent
  \<open>error\<close> field.
\<close>

record 'r TestResult =
  testFile :: jsstring
  testNumber :: int
  prompt :: jsstring
  result :: "'r option"
  success :: bool
  error :: "jsstring option"

text \<open>
  The two private fields of the class: \<open>agent\<close>, of which only \<open>run\<close> is called, and
  \<open>testsDir\<close>.
\<close>

record ('w, 'r) TestAgent =
  agent_run :: "jsstring \<Rightarrow> 'w \<Rightarrow> (thrown + 'r) \<times> 'w"
  testsDir :: jsstring

definition getTestFiles ::
  "('w, 'r) platform \<Rightarrow> ('w, 'r) TestAgent \<Rightarrow> 'w state \<Rightarrow> (thrown + jsstring list) \<times> 'w state" where
  "getTestFiles P this s =
     (case readdir P (testsDir this) (world s) of
        (Inl e, w) \<Rightarrow> (Inl e, s\<lparr>world := w\<rparr>)
      | (Inr files, w) \<Rightarrow>
          (Inr (map (\<lambda>file. path_join P (testsDir this) file)
                 (sort (filter (\<lambda>file. endsWith file (js ''.test'')) files))),
           s\<lparr>world := w\<rparr>))"

definition readTestContent ::
  "('w, 'r) platform \<Rightarrow> jsstring \<Rightarrow> 'w state \<Rightarrow> (thrown + jsstring) \<times> 'w state" where
  "readTestContent P filePath s =
     (case readFile P filePath (world s) of (r, w) \<Rightarrow> (r, s\<lparr>world := w\<rparr>))"

definition buildTestPrompt :: "('w, 'r) platform \<Rightarrow> jsstring \<Rightarrow> 'w state \<Rightarrow> jsstring" where
  "buildTestPrompt P testContent s =
     (let currentDateTime = toISOString P (world s)
      in promptTemplate currentDateTime testContent)"

text \<open>
  \<open>errorText\<close> is \<open>error instanceof Error ? error.message : String(error)\<close>: a string,
  or what \<open>String\<close> throws.
\<close>

definition errorText :: "thrown \<Rightarrow> thrown + jsstring" where
  "errorText e = (case e of ErrorObject m \<Rightarrow> Inr m | NonError v \<Rightarrow> Inr v | Unconvertible t \<Rightarrow> Inl t)"

text \<open>
  The \<open>catch\<close> block of \<open>runSingleTest\<close>. Nothing encloses it: when \<open>console.error\<close>
  throws on the caught value, or \<open>String(error)\<close> does, \<open>runSingleTest\<close> throws that.
\<close>

definition runSingleTest_catch ::
  "('w, 'r) platform \<Rightarrow> jsstring \<Rightarrow> int \<Rightarrow> thrown \<Rightarrow> 'w state
     \<Rightarrow> (thrown + 'r TestResult) \<times> 'w state" where
  "runSingleTest_catch P file num e s =
     (case inspectThrown P e of
        Inl t \<Rightarrow> (Inl t, s)
      | Inr shown \<Rightarrow>
          (let s1 = console_error (js ''\<newline>Error running test: '' @ shown) s
           in case errorText e of
                Inl t \<Rightarrow> (Inl t, s1)
              | Inr msg \<Rightarrow>
                  (Inr \<lparr>testFile = path_basename P file, testNumber = num, prompt = [],
                        result = None, success = False, error = Some msg\<rparr>, s1)))"

text \<open>
  \<open>runSingleTest\<close>: three lines on the console, then the \<open>try\<close> block. Its two awaits and
  the logging of the result either continue or enter the \<open>catch\<close> block with the thrown
  value.
\<close>

definition runSingleTest ::
  "('w, 'r) platform \<Rightarrow> ('w, 'r) TestAgent \<Rightarrow> jsstring \<Rightarrow> int \<Rightarrow> 'w state
     \<Rightarrow> (thrown + 'r TestResult) \<times> 'w state" where
  "runSingleTest P this file num s =
     (let s1 = console_log (js ''\<newline>'' @ repeat (js ''='') 60) s;
          s2 = console_log (js ''Running Test #'' @ numberToString num @ js '': ''
                              @ path_basename P file) s1;
          s3 = console_log (repeat (js ''='') 60) s2
      in case readTestContent P file s3 of
           (Inl e, s4) \<Rightarrow> runSingleTest_catch P file num e s4
         | (Inr testContent, s4) \<Rightarrow>
             (let s5 = console_log (js ''\<newline>Test Content:\<newline>'' @ testContent
                                      @ js ''\<newline>'') s4;
                  builtPrompt = buildTestPrompt P testContent s5
              in case agent_run this builtPrompt (world s5) of
                   (Inl e, w) \<Rightarrow> runSingleTest_catch P file num e (s5\<lparr>world := w\<rparr>)
                 | (Inr res, w) \<Rightarrow>
                     (case inspectResult P res of
                        Inl e \<Rightarrow> runSingleTest_catch P file num e (s5\<lparr>world := w\<rparr>)
                      | Inr shown \<Rightarrow>
                          (let s6 = console_log (js ''\<newline>Result: '' @ shown)
                                      (s5\<lparr>world := w\<rparr>)
                           in (Inr \<lparr>testFile = path_basename P file, testNumber = num,
                                    prompt = testContent, result = Some res, success = True,
                                    error = None\<rparr>, s6)))))"

text \<open>
  The \<open>for\<close> loop of \<open>runAllTests\<close>, from index \<open>i\<close> with the results pushed so far. A
  rejected \<open>await\<close> leaves the loop: there is no \<open>try\<close> around it.
\<close>

function runAllTests_loop ::
  "('w, 'r) platform \<Rightarrow> ('w, 'r) TestAgent \<Rightarrow> jsstring list \<Rightarrow> nat \<Rightarrow> 'r TestResult list
     \<Rightarrow> 'w state \<Rightarrow> (thrown + 'r TestResult list) \<times> 'w state" where
  "runAllTests_loop P this testFiles i results s =
     (if i < length testFiles then
        (case runSingleTest P this (testFiles ! i) (int i + 1) s of
           (Inl e, s') \<Rightarrow> (Inl e, s')
         | (Inr r, s') \<Rightarrow> runAllTests_loop P this testFiles (i + 1) (results @ [r]) s')
      else (Inr results, s))"
  by pat_completeness auto
termination
  by (relation "measure (\<lambda>(P, this, testFiles, i, results, s). length testFiles - i)") auto

declare runAllTests_loop.simps [simp del]

text \<open>\<open>runAllTests\<close>; \<open>foundMessage\<close> is the text it logs after the listing.\<close>

definition foundMessage :: "('w, 'r) platform \<Rightarrow> jsstring list \<Rightarrow> jsstring" where
  "foundMessage P testFiles =
     js ''\<newline>Found '' @ numberToString (int (length testFiles)) @ js '' test file(s):\<newline>''
     @ joinStrings (js ''\<newline>'') (map (\<lambda>f. js ''  - '' @ path_basename P f) testFiles)"

definition runAllTests ::
  "('w, 'r) platform \<Rightarrow> ('w, 'r) TestAgent \<Rightarrow> 'w state
     \<Rightarrow> (thrown + 'r TestResult list) \<times> 'w state" where
  "runAllTests P this s =
     (case getTestFiles P this s of
        (Inl e, s1) \<Rightarrow> (Inl e, s1)
      | (Inr testFiles, s1) \<Rightarrow>
          (let s2 = console_log (foundMessage P testFiles) s1
           in runAllTests_loop P this testFiles 0 [] s2))"

text \<open>
  \<open>printSummary\<close>: the body of its \<open>forEach\<close>, then the whole method. \<open>if (r.error)\<close>
  holds when the field is present and not the empty string. The two status marks are
  U+2705 and U+274C.
\<close>

definition printSummary_each :: "'r TestResult \<Rightarrow> 'w state \<Rightarrow> 'w state" where
  "printSummary_each r s =
     (let status = (if success r then [0x2705] @ js '' PASSED'' else [0x274C] @ js '' FAILED'');
          s1 = console_log (status @ js '' - Test #'' @ numberToString (testNumber r)
                              @ js '': '' @ testFile r) s
      in case error r of
           None \<Rightarrow> s1
         | Some msg \<Rightarrow> if msg \<noteq> [] then console_log (js ''  Error: '' @ msg) s1 else s1)"

definition printSummary :: "'r TestResult list \<Rightarrow> 'w state \<Rightarrow> 'w state" where
  "printSummary results s =
     (let s1 = console_log (js ''\<newline>'' @ repeat (js ''='') 60) s;
          s2 = console_log (js ''TEST SUMMARY'') s1;
          s3 = console_log (repeat (js ''='') 60) s2;
          s4 = fold printSummary_each results s3;
          passed = length (filter (\<lambda>r. success r) results)
      in console_log (js ''\<newline>Total: '' @ numberToString (int (length results))
                        @ js '' | Passed: '' @ numberToString (int passed)
                        @ js '' | Failed: '' @ numberToString (int (length results) - int passed))
           s4)"

section \<open>Observing a run\<close>

text \<open>
  The outcome of the gateway invocation that \<open>runSingleTest\<close> makes on \<open>file\<close> when it
  starts in state \<open>s\<close>: \<open>None\<close> when reading the file throws, so that the gateway is not
  invoked; otherwise what \<open>agent.run\<close> throws or returns.
\<close>

definition gatewayOutcome ::
  "('w, 'r) platform \<Rightarrow> ('w, 'r) TestAgent \<Rightarrow> jsstring \<Rightarrow> 'w state \<Rightarrow> (thrown + 'r) option" where
  "gatewayOutcome P this file s =
     (case readFile P file (world s) of
        (Inl e, w) \<Rightarrow> None
      | (Inr testContent, w) \<Rightarrow>
          Some (fst (agent_run this (buildTestPrompt P testContent (s\<lparr>world := w\<rparr>)) w)))"

text \<open>
  The state in which the loop of \<open>runAllTests\<close>, entered in state \<open>s\<close>, starts the test
  of index \<open>i\<close> (counted from 0).
\<close>

primrec stateBefore ::
  "('w, 'r) platform \<Rightarrow> ('w, 'r) TestAgent \<Rightarrow> jsstring list \<Rightarrow> nat \<Rightarrow> 'w state \<Rightarrow> 'w state" where
  "stateBefore P this testFiles 0 s = s"
| "stateBefore P this testFiles (Suc i) s =
     snd (runSingleTest P this (testFiles ! i) (int i + 1) (stateBefore P this testFiles i s))"

text \<open>
  The outcome of the gateway invocation for the listed file of index \<open>i\<close> during
  \<open>runAllTests\<close>, where \<open>s1\<close> is the state in which the listing returned \<open>testFiles\<close>.
\<close>

definition gatewayOutcomeAt ::
  "('w, 'r) platform \<Rightarrow> ('w, 'r) TestAgent \<Rightarrow> jsstring list \<Rightarrow> 'w state \<Rightarrow> nat
     \<Rightarrow> (thrown + 'r) option" where
  "gatewayOutcomeAt P this testFiles s1 i =
     gatewayOutcome P this (testFiles ! i)
       (stateBefore P this testFiles i (console_log (foundMessage P testFiles) s1))"

text \<open>
  The \<open>catch\<close> block completes on \<open>e\<close>: the console renders \<open>e\<close> and \<open>e\<close> is an
  \<open>Error\<close> or has a string conversion. A gateway invocation is settled when it was made
  and either threw a value on which the \<open>catch\<close> block completes or returned a result
  that the console renders.
\<close>

definition catchCompletes :: "('w, 'r) platform \<Rightarrow> thrown \<Rightarrow> bool" where
  "catchCompletes P e \<longleftrightarrow>
     (case inspectThrown P e of
        Inl t \<Rightarrow> False
      | Inr shown \<Rightarrow> (case errorText e of Inl t \<Rightarrow> False | Inr msg \<Rightarrow> True))"

definition rendersResult :: "('w, 'r) platform \<Rightarrow> 'r \<Rightarrow> bool" where
  "rendersResult P res \<longleftrightarrow> (case inspectResult P res of Inl t \<Rightarrow> False | Inr shown \<Rightarrow> True)"

definition settled :: "('w, 'r) platform \<Rightarrow> (thrown + 'r) option \<Rightarrow> bool" where
  "settled P x \<longleftrightarrow>
     (case x of
        None \<Rightarrow> False
      | Some (Inl e) \<Rightarrow> catchCompletes P e
      | Some (Inr res) \<Rightarrow> rendersResult P res)"

text \<open>
  The report as the summary is described: for each result one status line, and after it
  one line with the error message when the result has a non-empty one; then the tally.
\<close>

definition statusLine :: "'r TestResult \<Rightarrow> jsstring" where
  "statusLine r =
     (if success r then [0x2705] @ js '' PASSED'' else [0x274C] @ js '' FAILED'')
     @ js '' - Test #'' @ numberToString (testNumber r) @ js '': '' @ testFile r"

definition errorLines :: "'r TestResult \<Rightarrow> jsstring list" where
  "errorLines r =
     (case error r of
        None \<Rightarrow> []
      | Some msg \<Rightarrow> if msg = [] then [] else [js ''  Error: '' @ msg])"

definition tallyLine :: "'r TestResult list \<Rightarrow> jsstring" where
  "tallyLine results =
     js ''\<newline>Total: '' @ numberToString (int (length results))
     @ js '' | Passed: '' @ numberToString (int (length (filter success results)))
     @ js '' | Failed: '' @ numberToString (int (length (filter (\<lambda>r. \<not> success r) results)))"

definition report :: "'r TestResult list \<Rightarrow> jsstring list" where
  "report results =
     [js ''\<newline>'' @ repeat (js ''='') 60, js ''TEST SUMMARY'', repeat (js ''='') 60]
     @ concat (map (\<lambda>r. statusLine r # errorLines r) results)
     @ [tallyLine results]"

section \<open>A concrete platform\<close>

text \<open>
  What an agent may return, for the concrete platform: a text, or an object whose
  rendering by the console throws the given value (an object with a throwing custom
  inspection method).
\<close>

datatype agentValue = Text jsstring | ThrowingInspect thrown

text \<open>
  A directory \<open>tests\<close> holding \<open>2.test\<close>, \<open>notes.txt\<close> and \<open>1.test\<close>, listed in that
  order at first and in another order later; the world is the number of calls made so
  far. The console renders every caught value. Five agents over it: one that always
  answers, one that answers with the prompt it was given, one that throws
  \<open>new Error("")\<close> on the test of \<open>example.com\<close>, one that throws
  \<open>Object.create(null)\<close>, and one that returns an object the console cannot render.
\<close>

definition demoPlatform :: "(nat, agentValue) platform" where
  "demoPlatform =
     \<lparr>readdir = (\<lambda>dir w. if dir = js ''tests''
                         then (Inr (if w = 0 then [js ''2.test'', js ''notes.txt'', js ''1.test'']
                                    else [js ''notes.txt'', js ''1.test'', js ''2.test'']), Suc w)
                         else (Inl (ErrorObject (js ''ENOENT: no such file or directory'')), Suc w)),
      readFile = (\<lambda>p w. if p = js ''tests/1.test'' then (Inr (js ''open example.com''), Suc w)
                        else if p = js ''tests/2.test'' then (Inr (js ''open other.com''), Suc w)
                        else (Inl (ErrorObject (js ''ENOENT: no such file or directory'')), Suc w)),
      toISOString = (\<lambda>w. js ''2024-01-01T00:00:00.000Z''),
      path_join = (\<lambda>dir file. dir @ js ''/'' @ file),
      path_basename = (\<lambda>p. rev (takeWhile (\<lambda>c. c \<noteq> 0x2F) (rev p))),
      inspectResult = (\<lambda>r. case r of Text t \<Rightarrow> Inr t | ThrowingInspect e \<Rightarrow> Inl e),
      inspectThrown = (\<lambda>e. case e of
                              ErrorObject m \<Rightarrow> Inr (js ''Error: '' @ m)
                            | NonError v \<Rightarrow> Inr v
                            | Unconvertible t \<Rightarrow> Inr (js ''[Object: null prototype] {}''))\<rparr>"

definition demoAgent :: "(nat, agentValue) TestAgent" where
  "demoAgent =
     \<lparr>agent_run = (\<lambda>p w. (Inr (Text (js ''{ok:true}'')), Suc w)), testsDir = js ''tests''\<rparr>"

definition echoAgent :: "(nat, agentValue) TestAgent" where
  "echoAgent = \<lparr>agent_run = (\<lambda>p w. (Inr (Text p), Suc w)), testsDir = js ''tests''\<rparr>"

definition failingAgent :: "(nat, agentValue) TestAgent" where
  "failingAgent =
     \<lparr>agent_run = (\<lambda>p w. if endsWith p (js ''example.com'') then (Inl (ErrorObject []), Suc w)
                          else (Inr (Text (js ''{ok:true}'')), Suc w)),
      testsDir = js ''tests''\<rparr>"

definition nullPrototypeAgent :: "(nat, agentValue) TestAgent" where
  "nullPrototypeAgent =
     \<lparr>agent_run = (\<lambda>p w. (Inl (Unconvertible
                                   (ErrorObject (js ''Cannot convert object to primitive value''))),
                            Suc w)),
      testsDir = js ''tests''\<rparr>"

definition unrenderableAgent :: "(nat, agentValue) TestAgent" where
  "unrenderableAgent =
     \<lparr>agent_run = (\<lambda>p w. (Inr (ThrowingInspect (ErrorObject (js ''boom''))), Suc w)),
      testsDir = js ''tests''\<rparr>"

definition initialState :: "nat state" where
  "initialState = \<lparr>world = 0, stdout = [], stderr = []\<rparr>"

section \<open>Properties of the prompt builder\<close>

lemma includesStr_iff: "includesStr s t \<longleftrightarrow> (\<exists>pre post. s = pre @ t @ post)"
proof (induction s)
  case Nil
  then show ?case by auto
next
  case (Cons x xs)
  show ?case
  proof
    assume "includesStr (x # xs) t"
    then consider "take (length t) (x # xs) = t" | "includesStr xs t" by auto
    then show "\<exists>pre post. x # xs = pre @ t @ post"
    proof cases
      case 1
      then have "x # xs = [] @ t @ drop (length t) (x # xs)"
        by (metis append_Nil append_take_drop_id)
      then show ?thesis by blast
    next
      case 2
      then obtain pre post where "xs = pre @ t @ post" using Cons.IH by blast
      then have "x # xs = (x # pre) @ t @ post" by simp
      then show ?thesis by blast
    qed
  next
    assume "\<exists>pre post. x # xs = pre @ t @ post"
    then obtain pre post where e: "x # xs = pre @ t @ post" by blast
    show "includesStr (x # xs) t"
    proof (cases pre)
      case Nil
      then have "take (length t) (x # xs) = t" using e by simp
      then show ?thesis by simp
    next
      case (Cons p ps)
      then have "xs = ps @ t @ post" using e by simp
      then have "includesStr xs t" using Cons.IH by blast
      then show ?thesis by simp
    qed
  qed
qed

lemma trimEnd_append_keep:
  "\<exists>y \<in> set ys. \<not> isWhiteSpace y \<Longrightarrow> trimEnd (xs @ ys) = xs @ trimEnd ys"
  by (auto simp: trimEnd_def dropWhile_append1)

lemma trimEnd_append_drop:
  "\<forall>y \<in> set ys. isWhiteSpace y \<Longrightarrow> trimEnd (xs @ ys) = trimEnd xs"
proof -
  assume a: "\<forall>y \<in> set ys. isWhiteSpace y"
  have "dropWhile isWhiteSpace (rev ys @ rev xs) = dropWhile isWhiteSpace (rev xs)"
    by (rule dropWhile_append2) (use a in simp)
  then show ?thesis by (simp add: trimEnd_def)
qed

lemma trimEnd_last:
  "trimEnd xs \<noteq> [] \<Longrightarrow> \<not> isWhiteSpace (last (trimEnd xs))"
  unfolding trimEnd_def
  by (metis (full_types) hd_dropWhile last_rev rev_is_Nil_conv)

lemma colon_in_block: "0x3A \<in> set instructionBlock"
  by (simp add: instructionBlock_def js_def)

lemma not_ws_colon: "\<not> isWhiteSpace 0x3A"
  by (simp add: isWhiteSpace_def)

lemma block_keeps: "\<exists>y \<in> set (instructionBlock @ zs). \<not> isWhiteSpace y"
  using colon_in_block not_ws_colon by auto

lemma promptTemplate_eq:
  "promptTemplate t c = js ''Current Date/Time: '' @ t @ trimEnd (instructionBlock @ c @ js ''\<newline>'')"
proof -
  have "trimStart (js ''\<newline>Current Date/Time: '' @ t @ instructionBlock @ c @ js ''\<newline>'')
        = js ''Current Date/Time: '' @ t @ instructionBlock @ c @ js ''\<newline>''"
    by (simp add: trimStart_def js_def isWhiteSpace_def)
  moreover have "trimEnd ((js ''Current Date/Time: '' @ t) @ (instructionBlock @ c @ js ''\<newline>''))
     = (js ''Current Date/Time: '' @ t) @ trimEnd (instructionBlock @ c @ js ''\<newline>'')"
    by (rule trimEnd_append_keep) (rule block_keeps)
  ultimately show ?thesis by (simp add: promptTemplate_def trim_def)
qed



lemma buildTestPrompt_eq:
  "buildTestPrompt P c s =
     js ''Current Date/Time: '' @ toISOString P (world s)
     @ trimEnd (instructionBlock @ c @ js ''\<newline>'')"
  by (simp add: buildTestPrompt_def promptTemplate_eq)

lemma trimEnd_newline: "trimEnd (c @ js ''\<newline>'') = trimEnd c"
  by (rule trimEnd_append_drop) (simp add: js_def isWhiteSpace_def)

lemma trimEnd_id: "c = [] \<or> \<not> isWhiteSpace (last c) \<Longrightarrow> trimEnd c = c"
proof (cases "c = []")
  case True
  then show ?thesis by (simp add: trimEnd_def)
next
  case False
  assume "c = [] \<or> \<not> isWhiteSpace (last c)"
  with False have "\<not> isWhiteSpace (hd (rev c))" by (simp add: hd_rev)
  with False have "dropWhile isWhiteSpace (rev c) = rev c"
    by (cases "rev c") auto
  then show ?thesis by (simp add: trimEnd_def)
qed

lemma includesStr_trimEnd: "includesStr (buildTestPrompt P c s) (trimEnd c)"
proof (cases "\<forall>y \<in> set c. isWhiteSpace y")
  case True
  then have "trimEnd c = []" by (simp add: trimEnd_def)
  moreover have "includesStr xs []" for xs :: jsstring
    by (cases xs) simp_all
  ultimately show ?thesis by simp
next
  case False
  then have "\<exists>y \<in> set (c @ js ''\<newline>''). \<not> isWhiteSpace y" by auto
  then have "trimEnd (instructionBlock @ c @ js ''\<newline>'')
             = instructionBlock @ trimEnd (c @ js ''\<newline>'')"
    by (rule trimEnd_append_keep)
  then have "buildTestPrompt P c s =
     (js ''Current Date/Time: '' @ toISOString P (world s) @ instructionBlock) @ trimEnd c @ []"
    by (simp add: buildTestPrompt_eq trimEnd_newline)
  then show ?thesis unfolding includesStr_iff by blast
qed

lemma buildTestPrompt_edges:
  "buildTestPrompt P c s \<noteq> [] \<and> \<not> isWhiteSpace (hd (buildTestPrompt P c s))
   \<and> \<not> isWhiteSpace (last (buildTestPrompt P c s))"
proof -
  let ?raw = "js ''\<newline>Current Date/Time: '' @ toISOString P (world s) @ instructionBlock
              @ c @ js ''\<newline>''"
  have out: "buildTestPrompt P c s = trimEnd (trimStart ?raw)"
    by (simp add: buildTestPrompt_def promptTemplate_def trim_def)
  have ne: "buildTestPrompt P c s \<noteq> []"
    by (simp add: buildTestPrompt_eq js_def)
  have "hd (buildTestPrompt P c s) = 0x43"
    by (simp add: buildTestPrompt_eq js_def)
  then have "\<not> isWhiteSpace (hd (buildTestPrompt P c s))"
    by (simp add: isWhiteSpace_def)
  moreover have "\<not> isWhiteSpace (last (buildTestPrompt P c s))"
    using ne trimEnd_last [of "trimStart ?raw"] unfolding out by blast
  ultimately show ?thesis using ne by blast
qed

text \<open>
  C4, as the code has it. The prompt contains the test content with its trailing white
  space removed, hence the content itself when it is empty or does not end in white space;
  and the prompt neither starts nor ends with white space.
\<close>

theorem buildTestPrompt_contains_trimmed_content:
  "includesStr (buildTestPrompt P c s) (trimEnd c)
   \<and> (c = [] \<or> \<not> isWhiteSpace (last c) \<longrightarrow> includesStr (buildTestPrompt P c s) c)
   \<and> buildTestPrompt P c s \<noteq> []
   \<and> \<not> isWhiteSpace (hd (buildTestPrompt P c s))
   \<and> \<not> isWhiteSpace (last (buildTestPrompt P c s))"
  using includesStr_trimEnd [of P c s] buildTestPrompt_edges [of P c s] trimEnd_id [of c]
  by auto

theorem buildTestPrompt_contains_trimmed_content_witness:
  "\<not> isWhiteSpace (last (js ''open example.com''))
   \<and> includesStr (buildTestPrompt demoPlatform (js ''open example.com'') initialState)
        (js ''open example.com'')"
  using buildTestPrompt_contains_trimmed_content
          [of demoPlatform "js ''open example.com''" initialState]
  by (simp add: js_def isWhiteSpace_def)

text \<open>
  C4 as stated fails: a test file that ends with a line feed is not contained in its
  prompt, because the final \<open>trim\<close> removes the line feed.
\<close>

theorem buildTestPrompt_verbatim_counterexample:
  "\<not> includesStr (buildTestPrompt demoPlatform (js ''open example.com\<newline>'') initialState)
        (js ''open example.com\<newline>'')"
  by code_simp

text \<open>
  C5. The prompt is the label of the header, the timestamp read at the call, and a
  remainder that depends on the test content only: two calls on the same content differ
  in the timestamp and nowhere else.
\<close>

theorem buildTestPrompt_differs_only_in_timestamp:
  "\<exists>post. \<forall>(P :: ('w, 'r) platform) (s :: 'w state).
     buildTestPrompt P c s = js ''Current Date/Time: '' @ toISOString P (world s) @ post"
  using buildTestPrompt_eq by blast

section \<open>Properties of a single test\<close>

lemma catch_fst:
  "fst (runSingleTest_catch P file num e s) =
     (case inspectThrown P e of
        Inl t \<Rightarrow> Inl t
      | Inr shown \<Rightarrow>
          (case errorText e of
             Inl t \<Rightarrow> Inl t
           | Inr msg \<Rightarrow>
               Inr \<lparr>testFile = path_basename P file, testNumber = num, prompt = [],
                    result = None, success = False, error = Some msg\<rparr>))"
  by (simp add: runSingleTest_catch_def Let_def split: sum.splits)

lemma catch_completes:
  assumes "catchCompletes P e"
  shows "\<exists>msg. errorText e = Inr msg \<and>
     fst (runSingleTest_catch P file num e s) =
       Inr \<lparr>testFile = path_basename P file, testNumber = num, prompt = [], result = None,
            success = False, error = Some msg\<rparr>"
  using assms
  by (auto simp: catchCompletes_def runSingleTest_catch_def Let_def split: sum.splits)

lemma catch_returned:
  assumes "fst (runSingleTest_catch P file num e s) = Inr r"
  shows "catchCompletes P e \<and> (\<exists>msg. errorText e = Inr msg \<and>
     r = \<lparr>testFile = path_basename P file, testNumber = num, prompt = [], result = None,
          success = False, error = Some msg\<rparr>)"
  using assms
  by (auto simp: catchCompletes_def runSingleTest_catch_def Let_def split: sum.splits)

lemma catch_throws:
  assumes "\<not> catchCompletes P e"
  shows "\<exists>t. fst (runSingleTest_catch P file num e s) = Inl t"
  using assms
  by (auto simp: catchCompletes_def runSingleTest_catch_def Let_def split: sum.splits)

lemma runSingleTest_read_throws:
  "readFile P file (world s) = (Inl e, w) \<Longrightarrow>
   fst (runSingleTest P this file num s) = fst (runSingleTest_catch P file num e s)"
  by (simp add: runSingleTest_def readTestContent_def console_log_def Let_def catch_fst)

lemma runSingleTest_gateway_throws:
  "readFile P file (world s) = (Inr c, w) \<Longrightarrow>
   agent_run this (buildTestPrompt P c (s\<lparr>world := w\<rparr>)) w = (Inl e, w') \<Longrightarrow>
   fst (runSingleTest P this file num s) = fst (runSingleTest_catch P file num e s)"
  by (simp add: runSingleTest_def readTestContent_def console_log_def buildTestPrompt_def Let_def catch_fst)

lemma runSingleTest_render_throws:
  "readFile P file (world s) = (Inr c, w) \<Longrightarrow>
   agent_run this (buildTestPrompt P c (s\<lparr>world := w\<rparr>)) w = (Inr res, w') \<Longrightarrow>
   inspectResult P res = Inl e \<Longrightarrow>
   fst (runSingleTest P this file num s) = fst (runSingleTest_catch P file num e s)"
  by (simp add: runSingleTest_def readTestContent_def console_log_def buildTestPrompt_def Let_def catch_fst)

lemma runSingleTest_gateway_returns:
  "readFile P file (world s) = (Inr c, w) \<Longrightarrow>
   agent_run this (buildTestPrompt P c (s\<lparr>world := w\<rparr>)) w = (Inr res, w') \<Longrightarrow>
   inspectResult P res = Inr shown \<Longrightarrow>
   fst (runSingleTest P this file num s) =
     Inr \<lparr>testFile = path_basename P file, testNumber = num, prompt = c, result = Some res,
          success = True, error = None\<rparr>"
  by (simp add: runSingleTest_def readTestContent_def console_log_def buildTestPrompt_def Let_def)

lemma gatewayOutcome_None:
  "gatewayOutcome P this file s = None \<longleftrightarrow> (\<exists>e w. readFile P file (world s) = (Inl e, w))"
  by (auto simp: gatewayOutcome_def split: prod.splits sum.splits)

lemma gatewayOutcome_Some:
  "gatewayOutcome P this file s = Some x \<longleftrightarrow>
     (\<exists>c w. readFile P file (world s) = (Inr c, w)
        \<and> fst (agent_run this (buildTestPrompt P c (s\<lparr>world := w\<rparr>)) w) = x)"
  by (auto simp: gatewayOutcome_def split: prod.splits sum.splits)

lemma runSingleTest_outcome_None:
  assumes "gatewayOutcome P this file s = None"
  shows "\<exists>e. fst (runSingleTest P this file num s) = fst (runSingleTest_catch P file num e s)"
proof -
  obtain e w where "readFile P file (world s) = (Inl e, w)"
    using assms unfolding gatewayOutcome_None by blast
  then have "fst (runSingleTest P this file num s) = fst (runSingleTest_catch P file num e s)"
    by (rule runSingleTest_read_throws)
  then show ?thesis ..
qed

lemma runSingleTest_outcome_raised:
  assumes "gatewayOutcome P this file s = Some (Inl e)"
  shows "fst (runSingleTest P this file num s) = fst (runSingleTest_catch P file num e s)"
proof -
  obtain c w where rd: "readFile P file (world s) = (Inr c, w)"
    and "fst (agent_run this (buildTestPrompt P c (s\<lparr>world := w\<rparr>)) w) = Inl e"
    using assms unfolding gatewayOutcome_Some by blast
  then have "agent_run this (buildTestPrompt P c (s\<lparr>world := w\<rparr>)) w
             = (Inl e, snd (agent_run this (buildTestPrompt P c (s\<lparr>world := w\<rparr>)) w))"
    by (simp add: prod_eq_iff)
  with rd show ?thesis by (rule runSingleTest_gateway_throws)
qed

lemma runSingleTest_outcome_returned:
  assumes "gatewayOutcome P this file s = Some (Inr res)"
  shows "\<exists>c w. readFile P file (world s) = (Inr c, w) \<and>
     fst (runSingleTest P this file num s) =
       (case inspectResult P res of
          Inl e \<Rightarrow> fst (runSingleTest_catch P file num e s)
        | Inr shown \<Rightarrow>
            Inr \<lparr>testFile = path_basename P file, testNumber = num, prompt = c,
                 result = Some res, success = True, error = None\<rparr>)"
proof -
  obtain c w where rd: "readFile P file (world s) = (Inr c, w)"
    and "fst (agent_run this (buildTestPrompt P c (s\<lparr>world := w\<rparr>)) w) = Inr res"
    using assms unfolding gatewayOutcome_Some by blast
  then have run: "agent_run this (buildTestPrompt P c (s\<lparr>world := w\<rparr>)) w
             = (Inr res, snd (agent_run this (buildTestPrompt P c (s\<lparr>world := w\<rparr>)) w))"
    by (simp add: prod_eq_iff)
  have "fst (runSingleTest P this file num s) =
       (case inspectResult P res of
          Inl e \<Rightarrow> fst (runSingleTest_catch P file num e s)
        | Inr shown \<Rightarrow>
            Inr \<lparr>testFile = path_basename P file, testNumber = num, prompt = c,
                 result = Some res, success = True, error = None\<rparr>)"
  proof (cases "inspectResult P res")
    case (Inl e)
    with runSingleTest_render_throws [OF rd run Inl] show ?thesis by simp
  next
    case (Inr shown)
    with runSingleTest_gateway_returns [OF rd run Inr] show ?thesis by simp
  qed
  with rd show ?thesis by blast
qed

text \<open>
  Every run of \<open>runSingleTest\<close> is of one of two kinds: the \<open>catch\<close> block is entered with
  some thrown value, or the gateway has returned a result that the console renders and
  the success record is returned.
\<close>

lemma runSingleTest_kinds:
  "(\<exists>e. fst (runSingleTest P this file num s) = fst (runSingleTest_catch P file num e s)
        \<and> (\<forall>res. gatewayOutcome P this file s = Some (Inr res) \<longrightarrow> \<not> rendersResult P res))
   \<or> (\<exists>c w res. readFile P file (world s) = (Inr c, w)
        \<and> gatewayOutcome P this file s = Some (Inr res) \<and> rendersResult P res
        \<and> fst (runSingleTest P this file num s) =
            Inr \<lparr>testFile = path_basename P file, testNumber = num, prompt = c,
                 result = Some res, success = True, error = None\<rparr>)"
proof (cases "gatewayOutcome P this file s")
  case None
  with runSingleTest_outcome_None [OF None] show ?thesis by auto
next
  case (Some x)
  show ?thesis
  proof (cases x)
    case (Inl e)
    with Some runSingleTest_outcome_raised [of P this "file" s e num] show ?thesis by auto
  next
    case (Inr res)
    with Some have o: "gatewayOutcome P this file s = Some (Inr res)" by simp
    obtain c w where rd: "readFile P file (world s) = (Inr c, w)"
      and run: "fst (runSingleTest P this file num s) =
       (case inspectResult P res of
          Inl e \<Rightarrow> fst (runSingleTest_catch P file num e s)
        | Inr shown \<Rightarrow>
            Inr \<lparr>testFile = path_basename P file, testNumber = num, prompt = c,
                 result = Some res, success = True, error = None\<rparr>)"
      using runSingleTest_outcome_returned [OF o] by blast
    show ?thesis
    proof (cases "inspectResult P res")
      case (Inl e)
      with run o show ?thesis by (auto simp: rendersResult_def)
    next
      case (Inr shown)
      with run o rd show ?thesis by (auto simp: rendersResult_def)
    qed
  qed
qed

lemma runSingleTest_settled:
  assumes "settled P (gatewayOutcome P this file s)"
  shows "\<exists>r. fst (runSingleTest P this file num s) = Inr r"
proof (cases "gatewayOutcome P this file s")
  case None
  with assms show ?thesis by (simp add: settled_def)
next
  case (Some x)
  show ?thesis
  proof (cases x)
    case (Inl e)
    with Some assms have "catchCompletes P e" by (simp add: settled_def)
    then obtain msg where
      "fst (runSingleTest_catch P file num e s) =
         Inr \<lparr>testFile = path_basename P file, testNumber = num, prompt = [], result = None,
              success = False, error = Some msg\<rparr>"
      using catch_completes by blast
    moreover have "fst (runSingleTest P this file num s) = fst (runSingleTest_catch P file num e s)"
      using Some Inl by (simp add: runSingleTest_outcome_raised)
    ultimately show ?thesis by simp
  next
    case (Inr res)
    with Some assms have "rendersResult P res" by (simp add: settled_def)
    with runSingleTest_outcome_returned [of P this "file" s res num] Some Inr
    show ?thesis by (auto simp: rendersResult_def split: sum.splits)
  qed
qed

subsection \<open>The concrete platform, one test\<close>

lemma demo_read_1:
  "readFile demoPlatform (js ''tests/1.test'') w = (Inr (js ''open example.com''), Suc w)"
  by (simp add: demoPlatform_def)

lemma demo_read_2:
  "readFile demoPlatform (js ''tests/2.test'') w = (Inr (js ''open other.com''), Suc w)"
  by (simp add: demoPlatform_def js_def)

lemma demo_read_3:
  "readFile demoPlatform (js ''tests/3.test'') w
   = (Inl (ErrorObject (js ''ENOENT: no such file or directory'')), Suc w)"
  by (simp add: demoPlatform_def js_def)

lemma demo_prompt:
  "buildTestPrompt demoPlatform c s = promptTemplate (js ''2024-01-01T00:00:00.000Z'') c"
  by (simp add: buildTestPrompt_def demoPlatform_def)

lemma demo_prompt_1_ends:
  "endsWith (promptTemplate (js ''2024-01-01T00:00:00.000Z'') (js ''open example.com''))
     (js ''example.com'')"
  by code_simp

lemma demo_prompt_2_ends:
  "\<not> endsWith (promptTemplate (js ''2024-01-01T00:00:00.000Z'') (js ''open other.com''))
     (js ''example.com'')"
  by code_simp

lemma failing_run_1:
  "agent_run failingAgent (buildTestPrompt demoPlatform (js ''open example.com'') s) w
   = (Inl (ErrorObject []), Suc w)"
  using demo_prompt_1_ends by (simp add: failingAgent_def demo_prompt)

lemma failing_run_2:
  "agent_run failingAgent (buildTestPrompt demoPlatform (js ''open other.com'') s) w
   = (Inr (Text (js ''{ok:true}'')), Suc w)"
  using demo_prompt_2_ends by (simp add: failingAgent_def demo_prompt)

lemma demo_basename_1: "path_basename demoPlatform (js ''tests/1.test'') = js ''1.test''"
  by (simp add: demoPlatform_def js_def)

lemma demo_basename_2: "path_basename demoPlatform (js ''tests/2.test'') = js ''2.test''"
  by (simp add: demoPlatform_def js_def)

lemma demo_basename_3: "path_basename demoPlatform (js ''tests/3.test'') = js ''3.test''"
  by (simp add: demoPlatform_def js_def)

lemma demo_renders_text: "inspectResult demoPlatform (Text t) = Inr t"
  by (simp add: demoPlatform_def)

lemma demo_renders_not: "inspectResult demoPlatform (ThrowingInspect e) = Inl e"
  by (simp add: demoPlatform_def)

lemma demo_catch_error:
  "fst (runSingleTest_catch demoPlatform file num (ErrorObject m) s) =
     Inr \<lparr>testFile = path_basename demoPlatform file, testNumber = num, prompt = [],
          result = None, success = False, error = Some m\<rparr>"
  by (simp add: catch_fst demoPlatform_def errorText_def)

lemma demo_catch_unconvertible:
  "fst (runSingleTest_catch demoPlatform file num (Unconvertible t) s) = Inl t"
  by (simp add: catch_fst demoPlatform_def errorText_def)

lemma demo_catchCompletes_error: "catchCompletes demoPlatform (ErrorObject m)"
  by (simp add: catchCompletes_def demoPlatform_def errorText_def)

lemma failing_outcome_1:
  "gatewayOutcome demoPlatform failingAgent (js ''tests/1.test'') s = Some (Inl (ErrorObject []))"
  by (simp add: gatewayOutcome_def demo_read_1 failing_run_1)

lemma failing_outcome_2:
  "gatewayOutcome demoPlatform failingAgent (js ''tests/2.test'') s
   = Some (Inr (Text (js ''{ok:true}'')))"
  by (simp add: gatewayOutcome_def demo_read_2 failing_run_2)

lemma demo_outcome_1:
  "gatewayOutcome demoPlatform demoAgent (js ''tests/1.test'') s
   = Some (Inr (Text (js ''{ok:true}'')))"
  by (simp add: gatewayOutcome_def demo_read_1 demoAgent_def)

lemma demo_outcome_2:
  "gatewayOutcome demoPlatform demoAgent (js ''tests/2.test'') s
   = Some (Inr (Text (js ''{ok:true}'')))"
  by (simp add: gatewayOutcome_def demo_read_2 demoAgent_def)

lemma demo_outcome_3:
  "gatewayOutcome demoPlatform demoAgent (js ''tests/3.test'') s = None"
  by (simp add: gatewayOutcome_def demo_read_3)

lemma nullPrototype_outcome_1:
  "gatewayOutcome demoPlatform nullPrototypeAgent (js ''tests/1.test'') s
   = Some (Inl (Unconvertible (ErrorObject (js ''Cannot convert object to primitive value''))))"
  by (simp add: gatewayOutcome_def demo_read_1 nullPrototypeAgent_def)

lemma unrenderable_outcome_1:
  "gatewayOutcome demoPlatform unrenderableAgent (js ''tests/1.test'') s
   = Some (Inr (ThrowingInspect (ErrorObject (js ''boom''))))"
  by (simp add: gatewayOutcome_def demo_read_1 unrenderableAgent_def)

lemma unrenderable_outcome_2:
  "gatewayOutcome demoPlatform unrenderableAgent (js ''tests/2.test'') s
   = Some (Inr (ThrowingInspect (ErrorObject (js ''boom''))))"
  by (simp add: gatewayOutcome_def demo_read_2 unrenderableAgent_def)

lemma failing_test_1:
  "fst (runSingleTest demoPlatform failingAgent (js ''tests/1.test'') num s) =
     Inr \<lparr>testFile = js ''1.test'', testNumber = num, prompt = [], result = None,
          success = False, error = Some []\<rparr>"
  by (simp add: runSingleTest_outcome_raised [OF failing_outcome_1] demo_catch_error
      demo_basename_1)

lemma failing_test_2:
  "fst (runSingleTest demoPlatform failingAgent (js ''tests/2.test'') num s) =
     Inr \<lparr>testFile = js ''2.test'', testNumber = num, prompt = js ''open other.com'',
          result = Some (Text (js ''{ok:true}'')), success = True, error = None\<rparr>"
  using runSingleTest_outcome_returned [OF failing_outcome_2, where num = num and s = s]
  by (simp add: demo_read_2 demo_renders_text demo_basename_2)

lemma missing_test_3:
  "fst (runSingleTest demoPlatform demoAgent (js ''tests/3.test'') num s) =
     Inr \<lparr>testFile = js ''3.test'', testNumber = num, prompt = [], result = None,
          success = False, error = Some (js ''ENOENT: no such file or directory'')\<rparr>"
  by (simp add: runSingleTest_read_throws [OF demo_read_3] demo_catch_error demo_basename_3)

lemma nullPrototype_test_1:
  "fst (runSingleTest demoPlatform nullPrototypeAgent (js ''tests/1.test'') num s) =
     Inl (ErrorObject (js ''Cannot convert object to primitive value''))"
  by (simp add: runSingleTest_outcome_raised [OF nullPrototype_outcome_1]
      demo_catch_unconvertible)

lemma unrenderable_test_1:
  "fst (runSingleTest demoPlatform unrenderableAgent (js ''tests/1.test'') num s) =
     Inr \<lparr>testFile = js ''1.test'', testNumber = num, prompt = [], result = None,
          success = False, error = Some (js ''boom'')\<rparr>"
  using runSingleTest_outcome_returned [OF unrenderable_outcome_1, where num = num and s = s]
  by (simp add: demo_renders_not demo_catch_error demo_basename_1)

lemma unrenderable_test_2:
  "fst (runSingleTest demoPlatform unrenderableAgent (js ''tests/2.test'') num s) =
     Inr \<lparr>testFile = js ''2.test'', testNumber = num, prompt = [], result = None,
          success = False, error = Some (js ''boom'')\<rparr>"
  using runSingleTest_outcome_returned [OF unrenderable_outcome_2, where num = num and s = s]
  by (simp add: demo_renders_not demo_catch_error demo_basename_2)

text \<open>
  C1 fails on the code. The test file is read and the gateway throws
  \<open>Object.create(null)\<close>; the \<open>catch\<close> block is entered, logs the value, and its
  \<open>String(error)\<close> throws a \<open>TypeError\<close>, which \<open>runSingleTest\<close> throws to its caller
  instead of returning a result.
\<close>

theorem runSingleTest_throws_from_catch:
  "readFile demoPlatform (js ''tests/1.test'') (world initialState)
     = (Inr (js ''open example.com''), 1)
   \<and> gatewayOutcome demoPlatform nullPrototypeAgent (js ''tests/1.test'') initialState
     = Some (Inl (Unconvertible (ErrorObject (js ''Cannot convert object to primitive value''))))
   \<and> fst (runSingleTest demoPlatform nullPrototypeAgent (js ''tests/1.test'') 1 initialState)
     = Inl (ErrorObject (js ''Cannot convert object to primitive value''))"
  by (simp add: demo_read_1 nullPrototype_outcome_1 nullPrototype_test_1 initialState_def)

text \<open>
  C8, as the code has it. A successful \<open>runSingleTest\<close> records in \<open>prompt\<close> the test
  content read from the file, not the prompt built from it and sent to the gateway; with
  it the base name of the file, the ordinal, the gateway's result, \<open>success = true\<close> and
  no error. This is the record returned when the file is read and the gateway returns a
  result that the console renders, and every returned record with \<open>success = true\<close> is
  of this form.
\<close>

theorem runSingleTest_success_record:
  "(\<forall>c w res. readFile P file (world s) = (Inr c, w)
        \<and> gatewayOutcome P this file s = Some (Inr res) \<and> rendersResult P res
      \<longrightarrow> fst (runSingleTest P this file num s) =
            Inr \<lparr>testFile = path_basename P file, testNumber = num, prompt = c,
                 result = Some res, success = True, error = None\<rparr>)
   \<and> (\<forall>r. fst (runSingleTest P this file num s) = Inr r \<and> success r = True
      \<longrightarrow> (\<exists>c w res. readFile P file (world s) = (Inr c, w)
             \<and> gatewayOutcome P this file s = Some (Inr res)
             \<and> r = \<lparr>testFile = path_basename P file, testNumber = num, prompt = c,
                    result = Some res, success = True, error = None\<rparr>))"
proof (intro conjI allI impI)
  fix c w res
  assume a: "readFile P file (world s) = (Inr c, w)
        \<and> gatewayOutcome P this file s = Some (Inr res) \<and> rendersResult P res"
  then obtain shown where "inspectResult P res = Inr shown"
    by (auto simp: rendersResult_def split: sum.splits)
  with a runSingleTest_outcome_returned [of P this "file" s res num]
  show "fst (runSingleTest P this file num s) =
            Inr \<lparr>testFile = path_basename P file, testNumber = num, prompt = c,
                 result = Some res, success = True, error = None\<rparr>"
    by auto
next
  fix r
  assume a: "fst (runSingleTest P this file num s) = Inr r \<and> success r = True"
  from runSingleTest_kinds [of P this "file" num s]
  show "\<exists>c w res. readFile P file (world s) = (Inr c, w)
             \<and> gatewayOutcome P this file s = Some (Inr res)
             \<and> r = \<lparr>testFile = path_basename P file, testNumber = num, prompt = c,
                    result = Some res, success = True, error = None\<rparr>"
  proof
    assume "\<exists>e. fst (runSingleTest P this file num s) = fst (runSingleTest_catch P file num e s)
        \<and> (\<forall>res. gatewayOutcome P this file s = Some (Inr res) \<longrightarrow> \<not> rendersResult P res)"
    then obtain e where "fst (runSingleTest_catch P file num e s) = Inr r"
      using a by auto
    from catch_returned [OF this] a show ?thesis by auto
  next
    assume "\<exists>c w res. readFile P file (world s) = (Inr c, w)
        \<and> gatewayOutcome P this file s = Some (Inr res) \<and> rendersResult P res
        \<and> fst (runSingleTest P this file num s) =
            Inr \<lparr>testFile = path_basename P file, testNumber = num, prompt = c,
                 result = Some res, success = True, error = None\<rparr>"
    with a show ?thesis by auto
  qed
qed

theorem runSingleTest_success_record_witness:
  "rendersResult demoPlatform (Text (js ''{ok:true}''))
   \<and> fst (runSingleTest demoPlatform demoAgent (js ''tests/1.test'') 1 initialState) =
     Inr \<lparr>testFile = js ''1.test'', testNumber = 1, prompt = js ''open example.com'',
          result = Some (Text (js ''{ok:true}'')), success = True, error = None\<rparr>"
proof -
  have r: "rendersResult demoPlatform (Text (js ''{ok:true}''))"
    by (simp add: rendersResult_def demo_renders_text)
  with runSingleTest_success_record
         [where ?P = demoPlatform and ?this = demoAgent and ?file = "js ''tests/1.test''"
            and ?s = initialState and ?num = 1]
    demo_read_1 [of "world initialState"] demo_outcome_1 [of initialState]
  have "fst (runSingleTest demoPlatform demoAgent (js ''tests/1.test'') 1 initialState) =
     Inr \<lparr>testFile = path_basename demoPlatform (js ''tests/1.test''), testNumber = 1,
          prompt = js ''open example.com'',
          result = Some (Text (js ''{ok:true}'')), success = True, error = None\<rparr>"
    by blast
  with r show ?thesis by (simp add: demo_basename_1)
qed

text \<open>
  C8 as stated fails: with an agent that answers with the prompt it was given, the
  \<open>prompt\<close> field of the successful result differs from the prompt that was sent.
\<close>

theorem runSingleTest_prompt_field_counterexample:
  "(case fst (runSingleTest demoPlatform echoAgent (js ''tests/1.test'') 1 initialState) of
      Inl e \<Rightarrow> False
    | Inr r \<Rightarrow> success r \<and> prompt r = js ''open example.com''
               \<and> result r = Some (Text (buildTestPrompt demoPlatform (js ''open example.com'')
                                           initialState))
               \<and> Some (Text (prompt r)) \<noteq> result r)"
proof -
  have "agent_run echoAgent (buildTestPrompt demoPlatform (js ''open example.com'')
          (initialState\<lparr>world := Suc (world initialState)\<rparr>)) (Suc (world initialState))
        = (Inr (Text (buildTestPrompt demoPlatform (js ''open example.com'') initialState)),
           Suc (Suc (world initialState)))"
    by (simp add: echoAgent_def demo_prompt)
  with demo_read_1
  have "fst (runSingleTest demoPlatform echoAgent (js ''tests/1.test'') 1 initialState) =
     Inr \<lparr>testFile = path_basename demoPlatform (js ''tests/1.test''), testNumber = 1,
          prompt = js ''open example.com'',
          result = Some (Text (buildTestPrompt demoPlatform (js ''open example.com'')
                                 initialState)),
          success = True, error = None\<rparr>"
    by (rule runSingleTest_gateway_returns) (rule demo_renders_text)
  moreover have "buildTestPrompt demoPlatform (js ''open example.com'') initialState
                 \<noteq> js ''open example.com''"
    by (simp add: buildTestPrompt_eq js_def)
  ultimately show ?thesis by simp
qed

text \<open>
  C10. A record that \<open>runSingleTest\<close> returns after its \<open>catch\<close> block was entered,
  because reading the file threw or because the gateway threw after the file was read
  and the prompt built, and every returned record with \<open>success = false\<close>, has the empty
  string as \<open>prompt\<close> and \<open>null\<close> as \<open>result\<close>, and still the base name of the file and
  the ordinal.
\<close>

theorem runSingleTest_failed_record:
  assumes "fst (runSingleTest P this file num s) = Inr r"
    and "gatewayOutcome P this file s = None
         \<or> (\<exists>e. gatewayOutcome P this file s = Some (Inl e))
         \<or> success r = False"
  shows "prompt r = [] \<and> result r = None \<and> success r = False
         \<and> testFile r = path_basename P file \<and> testNumber r = num"
  using runSingleTest_kinds [of P this "file" num s]
proof
  assume "\<exists>e. fst (runSingleTest P this file num s) = fst (runSingleTest_catch P file num e s)
        \<and> (\<forall>res. gatewayOutcome P this file s = Some (Inr res) \<longrightarrow> \<not> rendersResult P res)"
  then obtain e where "fst (runSingleTest_catch P file num e s) = Inr r"
    using assms(1) by auto
  from catch_returned [OF this] show ?thesis by auto
next
  assume "\<exists>c w res. readFile P file (world s) = (Inr c, w)
        \<and> gatewayOutcome P this file s = Some (Inr res) \<and> rendersResult P res
        \<and> fst (runSingleTest P this file num s) =
            Inr \<lparr>testFile = path_basename P file, testNumber = num, prompt = c,
                 result = Some res, success = True, error = None\<rparr>"
  with assms show ?thesis by auto
qed

theorem runSingleTest_failed_record_witness:
  "(\<exists>c w. readFile demoPlatform (js ''tests/1.test'') (world initialState) = (Inr c, w))
   \<and> (\<exists>e. gatewayOutcome demoPlatform failingAgent (js ''tests/1.test'') initialState
            = Some (Inl e))
   \<and> (\<exists>r. fst (runSingleTest demoPlatform failingAgent (js ''tests/1.test'') 1 initialState) = Inr r
         \<and> prompt r = [] \<and> result r = None \<and> success r = False
         \<and> testFile r = js ''1.test'' \<and> testNumber r = 1)
   \<and> gatewayOutcome demoPlatform demoAgent (js ''tests/3.test'') initialState = None
   \<and> (\<exists>r. fst (runSingleTest demoPlatform demoAgent (js ''tests/3.test'') 3 initialState) = Inr r
         \<and> prompt r = [] \<and> result r = None \<and> success r = False
         \<and> testFile r = js ''3.test'' \<and> testNumber r = 3)"
proof -
  have o1: "gatewayOutcome demoPlatform failingAgent (js ''tests/1.test'') initialState = None
         \<or> (\<exists>e. gatewayOutcome demoPlatform failingAgent (js ''tests/1.test'') initialState
                  = Some (Inl e))
         \<or> success r = False" for r :: "agentValue TestResult"
    by (simp add: failing_outcome_1)
  have o3: "gatewayOutcome demoPlatform demoAgent (js ''tests/3.test'') initialState = None
         \<or> (\<exists>e. gatewayOutcome demoPlatform demoAgent (js ''tests/3.test'') initialState
                  = Some (Inl e))
         \<or> success r = False" for r :: "agentValue TestResult"
    by (simp add: demo_outcome_3)
  from runSingleTest_failed_record [OF failing_test_1 [of 1 initialState] o1]
    runSingleTest_failed_record [OF missing_test_3 [of 3 initialState] o3]
  show ?thesis
    by (simp add: failing_test_1 missing_test_3 failing_outcome_1 demo_outcome_3 demo_read_1
        demo_basename_1 demo_basename_3)
qed

section \<open>Properties of the run\<close>

lemma runAllTests_loop_throws:
  assumes "i < length testFiles"
    and "fst (runSingleTest P this (testFiles ! i) (int i + 1) s) = Inl t"
  shows "fst (runAllTests_loop P this testFiles i acc s) = Inl t"
  using assms by (subst runAllTests_loop.simps) (auto split: prod.splits sum.splits)

lemma runAllTests_loop_unroll:
  assumes "i \<le> length testFiles"
    and "\<forall>j<length testFiles. \<exists>r. fst (runSingleTest P this (testFiles ! j) (int j + 1)
                                          (stateBefore P this testFiles j s)) = Inr r"
  shows "runAllTests_loop P this testFiles i acc (stateBefore P this testFiles i s) =
     (Inr (acc @ map (\<lambda>j. projr (fst (runSingleTest P this (testFiles ! j) (int j + 1)
                                      (stateBefore P this testFiles j s)))) [i..<length testFiles]),
      stateBefore P this testFiles (length testFiles) s)"
  using assms(1)
proof (induction "length testFiles - i" arbitrary: i acc)
  case 0
  then have "i = length testFiles" by simp
  then show ?case by (subst runAllTests_loop.simps) simp
next
  case (Suc n)
  then have lt: "i < length testFiles" by simp
  obtain r where r: "fst (runSingleTest P this (testFiles ! i) (int i + 1)
                            (stateBefore P this testFiles i s)) = Inr r"
    using assms(2) lt by blast
  then have run: "runSingleTest P this (testFiles ! i) (int i + 1) (stateBefore P this testFiles i s)
                  = (Inr r, stateBefore P this testFiles (Suc i) s)"
    by (simp add: prod_eq_iff)
  have "runAllTests_loop P this testFiles (Suc i) (acc @ [r]) (stateBefore P this testFiles (Suc i) s) =
     (Inr ((acc @ [r]) @ map (\<lambda>j. projr (fst (runSingleTest P this (testFiles ! j) (int j + 1)
                                      (stateBefore P this testFiles j s)))) [Suc i..<length testFiles]),
      stateBefore P this testFiles (length testFiles) s)"
    using Suc.hyps(1) [of "Suc i" "acc @ [r]"] Suc.hyps(2) lt by simp
  moreover have "[i..<length testFiles] = i # [Suc i..<length testFiles]"
    using lt by (simp add: upt_conv_Cons)
  ultimately show ?case
    using lt run r by (subst runAllTests_loop.simps) (simp del: stateBefore.simps)
qed

text \<open>
  After a listing that returned \<open>testFiles\<close>, if each test returns a record,
  \<open>runAllTests\<close> returns one result for each listed file, in the order of the listing:
  the result of \<open>runSingleTest\<close> on that file with its index plus one, started in the
  state the earlier tests have left.
\<close>

lemma runAllTests_listed:
  assumes "getTestFiles P this s = (Inr testFiles, s1)"
    and "\<forall>i<length testFiles.
           \<exists>r. fst (runSingleTest P this (testFiles ! i) (int i + 1)
                      (stateBefore P this testFiles i (console_log (foundMessage P testFiles) s1)))
               = Inr r"
  shows "\<exists>rs s'. runAllTests P this s = (Inr rs, s') \<and> length rs = length testFiles \<and>
     (\<forall>i<length testFiles.
        fst (runSingleTest P this (testFiles ! i) (int i + 1)
               (stateBefore P this testFiles i (console_log (foundMessage P testFiles) s1)))
        = Inr (rs ! i))"
proof -
  let ?s2 = "console_log (foundMessage P testFiles) s1"
  let ?f = "\<lambda>j. projr (fst (runSingleTest P this (testFiles ! j) (int j + 1)
                               (stateBefore P this testFiles j ?s2)))"
  have "runAllTests_loop P this testFiles 0 [] (stateBefore P this testFiles 0 ?s2) =
     (Inr ([] @ map ?f [0..<length testFiles]), stateBefore P this testFiles (length testFiles) ?s2)"
    using assms(2) by (intro runAllTests_loop_unroll) simp_all
  then have run: "runAllTests P this s =
     (Inr (map ?f [0..<length testFiles]), stateBefore P this testFiles (length testFiles) ?s2)"
    using assms(1) by (simp add: runAllTests_def)
  have "fst (runSingleTest P this (testFiles ! i) (int i + 1) (stateBefore P this testFiles i ?s2))
        = Inr (map ?f [0..<length testFiles] ! i)" if i: "i < length testFiles" for i
  proof -
    obtain r where "fst (runSingleTest P this (testFiles ! i) (int i + 1)
                            (stateBefore P this testFiles i ?s2)) = Inr r"
      using assms(2) i by blast
    then show ?thesis using i by simp
  qed
  with run show ?thesis by simp
qed

lemma runAllTests_listing_throws:
  "readdir P (testsDir this) (world s) = (Inl e, w) \<Longrightarrow>
   runAllTests P this s = (Inl e, s\<lparr>world := w\<rparr>)"
  by (simp add: runAllTests_def getTestFiles_def)

subsection \<open>The concrete platform, a run\<close>

lemma demo_sorted_names:
  "sort (filter (\<lambda>file. endsWith file (js ''.test'')) [js ''2.test'', js ''notes.txt'', js ''1.test''])
   = [js ''1.test'', js ''2.test'']"
  "sort (filter (\<lambda>file. endsWith file (js ''.test'')) [js ''notes.txt'', js ''1.test'', js ''2.test''])
   = [js ''1.test'', js ''2.test'']"
  by (simp_all add: endsWith_def js_def)

lemma demo_listing:
  "testsDir this = js ''tests'' \<Longrightarrow>
   getTestFiles demoPlatform this s = (Inr [js ''tests/1.test'', js ''tests/2.test''], s\<lparr>world := Suc (world s)\<rparr>)"
proof -
  assume d: "testsDir this = js ''tests''"
  have "readdir demoPlatform (js ''tests'') (world s)
        = (Inr (if world s = 0 then [js ''2.test'', js ''notes.txt'', js ''1.test'']
                else [js ''notes.txt'', js ''1.test'', js ''2.test'']), Suc (world s))"
    by (simp add: demoPlatform_def)
  moreover have "map (path_join demoPlatform (js ''tests'')) [js ''1.test'', js ''2.test'']
                 = [js ''tests/1.test'', js ''tests/2.test'']"
    by (simp add: demoPlatform_def js_def)
  ultimately show ?thesis
    using d demo_sorted_names by (simp add: getTestFiles_def)
qed

lemma less_two_cases: "(\<forall>i<Suc (Suc 0). Q i) \<longleftrightarrow> Q 0 \<and> Q (Suc 0)"
  by (auto simp: less_Suc_eq)

lemma two_results:
  "length rs = Suc (Suc 0) \<Longrightarrow> rs ! 0 = a \<Longrightarrow> rs ! Suc 0 = b \<Longrightarrow> rs = [a, b]"
  by (cases rs; cases "tl rs") auto

text \<open>
  C3, as the code has it. When the listing returns \<open>K\<close> files and, for each of them, the
  gateway is invoked and returns a result that the console renders, \<open>runAllTests\<close>
  returns \<open>K\<close> results in the order of the listing, each with \<open>success = true\<close>, no error,
  the ordinal \<open>i + 1\<close> and the base name of the file of index \<open>i\<close>.
\<close>

theorem runAllTests_all_succeed:
  assumes "getTestFiles P this s = (Inr testFiles, s1)"
    and "\<forall>i<length testFiles.
           \<exists>res. gatewayOutcomeAt P this testFiles s1 i = Some (Inr res) \<and> rendersResult P res"
  shows "\<exists>rs s'. runAllTests P this s = (Inr rs, s') \<and> length rs = length testFiles \<and>
     (\<forall>i<length testFiles.
        success (rs ! i) = True \<and> error (rs ! i) = None \<and> testNumber (rs ! i) = int i + 1
        \<and> testFile (rs ! i) = path_basename P (testFiles ! i))"
proof -
  let ?st = "\<lambda>i. stateBefore P this testFiles i (console_log (foundMessage P testFiles) s1)"
  have ok: "\<exists>c. fst (runSingleTest P this (testFiles ! i) (int i + 1) (?st i)) =
              Inr \<lparr>testFile = path_basename P (testFiles ! i), testNumber = int i + 1,
                   prompt = c, result = Some res, success = True, error = None\<rparr>"
    if a: "gatewayOutcomeAt P this testFiles s1 i = Some (Inr res)" and b: "rendersResult P res"
    for i res
  proof -
    have o: "gatewayOutcome P this (testFiles ! i) (?st i) = Some (Inr res)"
      using a by (simp add: gatewayOutcomeAt_def)
    obtain shown where "inspectResult P res = Inr shown"
      using b by (auto simp: rendersResult_def split: sum.splits)
    with runSingleTest_outcome_returned [OF o, where num = "int i + 1"]
    show ?thesis by auto
  qed
  have "\<forall>i<length testFiles. \<exists>r. fst (runSingleTest P this (testFiles ! i) (int i + 1) (?st i)) = Inr r"
    using assms(2) ok by blast
  from runAllTests_listed [OF assms(1) this]
  obtain rs s' where run: "runAllTests P this s = (Inr rs, s')"
    and len: "length rs = length testFiles"
    and each: "\<forall>i<length testFiles.
        fst (runSingleTest P this (testFiles ! i) (int i + 1) (?st i)) = Inr (rs ! i)"
    by blast
  have "success (rs ! i) = True \<and> error (rs ! i) = None \<and> testNumber (rs ! i) = int i + 1
        \<and> testFile (rs ! i) = path_basename P (testFiles ! i)" if i: "i < length testFiles" for i
  proof -
    obtain res where "gatewayOutcomeAt P this testFiles s1 i = Some (Inr res)"
      and "rendersResult P res"
      using assms(2) i by blast
    from ok [OF this] each i show ?thesis by auto
  qed
  with run len show ?thesis by blast
qed

theorem runAllTests_all_succeed_witness:
  "\<exists>rs s'. runAllTests demoPlatform demoAgent initialState = (Inr rs, s') \<and> length rs = 2
     \<and> success (rs ! 0) \<and> error (rs ! 0) = None \<and> testNumber (rs ! 0) = 1
     \<and> testFile (rs ! 0) = js ''1.test''
     \<and> success (rs ! 1) \<and> error (rs ! 1) = None \<and> testNumber (rs ! 1) = 2
     \<and> testFile (rs ! 1) = js ''2.test''"
proof -
  have dir: "testsDir demoAgent = js ''tests''" by (simp add: demoAgent_def)
  have "\<forall>i<length [js ''tests/1.test'', js ''tests/2.test''].
          \<exists>res. gatewayOutcomeAt demoPlatform demoAgent [js ''tests/1.test'', js ''tests/2.test'']
                 (initialState\<lparr>world := Suc (world initialState)\<rparr>) i = Some (Inr res)
              \<and> rendersResult demoPlatform res"
    by (simp add: less_two_cases gatewayOutcomeAt_def demo_outcome_1 demo_outcome_2
        rendersResult_def demo_renders_text del: stateBefore.simps)
  from runAllTests_all_succeed [OF demo_listing [OF dir] this]
  show ?thesis
    by (simp add: less_two_cases demo_basename_1 demo_basename_2 numeral_2_eq_2)
qed

text \<open>
  C3 as stated fails: the gateway returns on both files, each time an object that the
  console cannot render; logging it throws inside the \<open>try\<close> block, and both results have
  \<open>success = false\<close> and an error.
\<close>

theorem runAllTests_unrenderable_result_counterexample:
  "gatewayOutcomeAt demoPlatform unrenderableAgent [js ''tests/1.test'', js ''tests/2.test'']
      (initialState\<lparr>world := 1\<rparr>) 0 = Some (Inr (ThrowingInspect (ErrorObject (js ''boom''))))
   \<and> gatewayOutcomeAt demoPlatform unrenderableAgent [js ''tests/1.test'', js ''tests/2.test'']
      (initialState\<lparr>world := 1\<rparr>) 1 = Some (Inr (ThrowingInspect (ErrorObject (js ''boom''))))
   \<and> fst (runAllTests demoPlatform unrenderableAgent initialState) =
     Inr [\<lparr>testFile = js ''1.test'', testNumber = 1, prompt = [], result = None,
           success = False, error = Some (js ''boom'')\<rparr>,
          \<lparr>testFile = js ''2.test'', testNumber = 2, prompt = [], result = None,
           success = False, error = Some (js ''boom'')\<rparr>]"
proof -
  have dir: "testsDir unrenderableAgent = js ''tests''" by (simp add: unrenderableAgent_def)
  have "\<forall>i<length [js ''tests/1.test'', js ''tests/2.test''].
        \<exists>r. fst (runSingleTest demoPlatform unrenderableAgent
                   ([js ''tests/1.test'', js ''tests/2.test''] ! i) (int i + 1)
                   (stateBefore demoPlatform unrenderableAgent
                      [js ''tests/1.test'', js ''tests/2.test''] i
                      (console_log (foundMessage demoPlatform [js ''tests/1.test'', js ''tests/2.test''])
                         (initialState\<lparr>world := Suc (world initialState)\<rparr>)))) = Inr r"
    by (simp add: less_two_cases unrenderable_test_1 unrenderable_test_2 del: stateBefore.simps)
  from runAllTests_listed [OF demo_listing [OF dir] this]
  obtain rs s' where run: "runAllTests demoPlatform unrenderableAgent initialState = (Inr rs, s')"
    and len: "length rs = Suc (Suc 0)"
    and r0: "rs ! 0 = \<lparr>testFile = js ''1.test'', testNumber = 1, prompt = [], result = None,
           success = False, error = Some (js ''boom'')\<rparr>"
    and r1: "rs ! Suc 0 = \<lparr>testFile = js ''2.test'', testNumber = 2, prompt = [], result = None,
           success = False, error = Some (js ''boom'')\<rparr>"
    by (auto simp: less_two_cases unrenderable_test_1 unrenderable_test_2
        simp del: stateBefore.simps)
  from two_results [OF len r0 r1] run show ?thesis
    by (simp add: gatewayOutcomeAt_def unrenderable_outcome_1 unrenderable_outcome_2
        del: stateBefore.simps)
qed

text \<open>
  C2, as the code has it. When the listing returns \<open>K\<close> files and the gateway is invoked
  for each of them, throwing only values on which the \<open>catch\<close> block completes and
  returning only results that the console renders, \<open>runAllTests\<close> returns \<open>K\<close> results;
  the result of index \<open>i\<close> has \<open>success = false\<close> exactly when the gateway threw on the
  file of index \<open>i\<close>, and its \<open>error\<close> is then the message of the thrown value, which may
  be the empty string; the other results have \<open>success = true\<close>.
\<close>

theorem runAllTests_isolates_gateway_failures:
  assumes "getTestFiles P this s = (Inr testFiles, s1)"
    and "\<forall>i<length testFiles. settled P (gatewayOutcomeAt P this testFiles s1 i)"
  shows "\<exists>rs s'. runAllTests P this s = (Inr rs, s') \<and> length rs = length testFiles \<and>
     (\<forall>i<length testFiles.
        (success (rs ! i) = False \<longleftrightarrow> (\<exists>e. gatewayOutcomeAt P this testFiles s1 i = Some (Inl e)))
        \<and> (\<forall>e. gatewayOutcomeAt P this testFiles s1 i = Some (Inl e)
               \<longrightarrow> (\<exists>msg. errorText e = Inr msg \<and> error (rs ! i) = Some msg)))"
proof -
  let ?st = "\<lambda>i. stateBefore P this testFiles i (console_log (foundMessage P testFiles) s1)"
  have st: "settled P (gatewayOutcome P this (testFiles ! i) (?st i))"
    if "i < length testFiles" for i
    using assms(2) that by (simp add: gatewayOutcomeAt_def)
  then have "\<forall>i<length testFiles.
      \<exists>r. fst (runSingleTest P this (testFiles ! i) (int i + 1) (?st i)) = Inr r"
    using runSingleTest_settled by blast
  from runAllTests_listed [OF assms(1) this]
  obtain rs s' where run: "runAllTests P this s = (Inr rs, s')"
    and len: "length rs = length testFiles"
    and each: "\<forall>i<length testFiles.
        fst (runSingleTest P this (testFiles ! i) (int i + 1) (?st i)) = Inr (rs ! i)"
    by blast
  have "(success (rs ! i) = False \<longleftrightarrow> (\<exists>e. gatewayOutcomeAt P this testFiles s1 i = Some (Inl e)))
        \<and> (\<forall>e. gatewayOutcomeAt P this testFiles s1 i = Some (Inl e)
               \<longrightarrow> (\<exists>msg. errorText e = Inr msg \<and> error (rs ! i) = Some msg))"
    if i: "i < length testFiles" for i
  proof -
    have res: "fst (runSingleTest P this (testFiles ! i) (int i + 1) (?st i)) = Inr (rs ! i)"
      using each i by blast
    from st [OF i] obtain x where x: "gatewayOutcome P this (testFiles ! i) (?st i) = Some x"
      by (cases "gatewayOutcome P this (testFiles ! i) (?st i)") (auto simp: settled_def)
    show ?thesis
    proof (cases x)
      case (Inl e)
      with st [OF i] x have "catchCompletes P e" by (simp add: settled_def)
      from catch_completes [OF this, of "testFiles ! i" "int i + 1" "?st i"]
        runSingleTest_outcome_raised [OF x [unfolded Inl], where num = "int i + 1"] res x Inl
      show ?thesis by (auto simp: gatewayOutcomeAt_def)
    next
      case (Inr r)
      with st [OF i] x obtain shown where "inspectResult P r = Inr shown"
        by (auto simp: settled_def rendersResult_def split: sum.splits)
      with runSingleTest_outcome_returned [OF x [unfolded Inr], where num = "int i + 1"] res x Inr
      show ?thesis by (auto simp: gatewayOutcomeAt_def)
    qed
  qed
  with run len show ?thesis by blast
qed

theorem runAllTests_isolates_gateway_failures_witness:
  "\<exists>rs s'. runAllTests demoPlatform failingAgent initialState = (Inr rs, s') \<and> length rs = 2
     \<and> success (rs ! 0) = False \<and> error (rs ! 0) = Some []
     \<and> success (rs ! 1) = True"
proof -
  have dir: "testsDir failingAgent = js ''tests''" by (simp add: failingAgent_def)
  have "\<forall>i<length [js ''tests/1.test'', js ''tests/2.test''].
          settled demoPlatform
            (gatewayOutcomeAt demoPlatform failingAgent [js ''tests/1.test'', js ''tests/2.test'']
               (initialState\<lparr>world := Suc (world initialState)\<rparr>) i)"
    by (simp add: less_two_cases gatewayOutcomeAt_def failing_outcome_1 failing_outcome_2
        settled_def demo_catchCompletes_error rendersResult_def demo_renders_text
        del: stateBefore.simps)
  from runAllTests_isolates_gateway_failures [OF demo_listing [OF dir] this]
  show ?thesis
    by (simp add: less_two_cases gatewayOutcomeAt_def failing_outcome_1 failing_outcome_2
        errorText_def numeral_2_eq_2 del: stateBefore.simps)
qed

text \<open>
  C2 as stated fails: the gateway throws \<open>new Error("")\<close> on the first of two files, and
  the failed result carries the empty string as its error message.
\<close>

theorem runAllTests_empty_message_counterexample:
  "fst (runAllTests demoPlatform failingAgent initialState) =
     Inr [\<lparr>testFile = js ''1.test'', testNumber = 1, prompt = [], result = None,
           success = False, error = Some []\<rparr>,
          \<lparr>testFile = js ''2.test'', testNumber = 2, prompt = js ''open other.com'',
           result = Some (Text (js ''{ok:true}'')), success = True, error = None\<rparr>]"
proof -
  have dir: "testsDir failingAgent = js ''tests''" by (simp add: failingAgent_def)
  have "\<forall>i<length [js ''tests/1.test'', js ''tests/2.test''].
        \<exists>r. fst (runSingleTest demoPlatform failingAgent
                   ([js ''tests/1.test'', js ''tests/2.test''] ! i) (int i + 1)
                   (stateBefore demoPlatform failingAgent
                      [js ''tests/1.test'', js ''tests/2.test''] i
                      (console_log (foundMessage demoPlatform [js ''tests/1.test'', js ''tests/2.test''])
                         (initialState\<lparr>world := Suc (world initialState)\<rparr>)))) = Inr r"
    by (simp add: less_two_cases failing_test_1 failing_test_2 del: stateBefore.simps)
  from runAllTests_listed [OF demo_listing [OF dir] this]
  obtain rs s' where run: "runAllTests demoPlatform failingAgent initialState = (Inr rs, s')"
    and len: "length rs = Suc (Suc 0)"
    and r0: "rs ! 0 = \<lparr>testFile = js ''1.test'', testNumber = 1, prompt = [], result = None,
           success = False, error = Some []\<rparr>"
    and r1: "rs ! Suc 0 = \<lparr>testFile = js ''2.test'', testNumber = 2, prompt = js ''open other.com'',
           result = Some (Text (js ''{ok:true}'')), success = True, error = None\<rparr>"
    by (auto simp: less_two_cases failing_test_1 failing_test_2 simp del: stateBefore.simps)
  from two_results [OF len r0 r1] run show ?thesis by simp
qed

text \<open>
  C7 fails on the code in its second half. The listing succeeds and returns two files;
  on the first the gateway throws \<open>Object.create(null)\<close>, the \<open>catch\<close> block of
  \<open>runSingleTest\<close> throws a \<open>TypeError\<close>, and \<open>runAllTests\<close>, which has no \<open>try\<close> around
  the call, throws it to its caller: a failure of one test escapes after a successful
  listing.
\<close>

theorem runAllTests_throws_after_listing:
  "fst (getTestFiles demoPlatform nullPrototypeAgent initialState)
     = Inr [js ''tests/1.test'', js ''tests/2.test'']
   \<and> fst (runAllTests demoPlatform nullPrototypeAgent initialState)
     = Inl (ErrorObject (js ''Cannot convert object to primitive value''))"
proof -
  have dir: "testsDir nullPrototypeAgent = js ''tests''" by (simp add: nullPrototypeAgent_def)
  have "fst (runAllTests_loop demoPlatform nullPrototypeAgent
               [js ''tests/1.test'', js ''tests/2.test''] 0 [] st)
        = Inl (ErrorObject (js ''Cannot convert object to primitive value''))" for st
    by (rule runAllTests_loop_throws) (simp_all add: nullPrototype_test_1)
  then show ?thesis
    by (simp add: runAllTests_def demo_listing [OF dir])
qed

section \<open>Properties of the listing\<close>

text \<open>
  C6. When the directory listing returns \<open>files\<close>, \<open>getTestFiles\<close> returns the paths
  \<open>path.join(testsDir, name)\<close> for a list of names that is sorted (lexicographically by
  code units) and has exactly the entries of \<open>files\<close> that end in \<open>.test\<close>, each as often
  as it is listed; their number is the number of such entries; and a listing of the same
  entries in any other order gives the same paths.
\<close>

theorem getTestFiles_sorted_matching:
  assumes "readdir P (testsDir this) (world s) = (Inr files, w)"
  shows "\<exists>names. fst (getTestFiles P this s) = Inr (map (path_join P (testsDir this)) names)
           \<and> sorted names
           \<and> mset names = mset (filter (\<lambda>file. endsWith file (js ''.test'')) files)
           \<and> length names = length (filter (\<lambda>file. endsWith file (js ''.test'')) files)
           \<and> (\<forall>s' files' w'. readdir P (testsDir this) (world s') = (Inr files', w')
                  \<and> mset files' = mset files
                \<longrightarrow> fst (getTestFiles P this s') = Inr (map (path_join P (testsDir this)) names))"
proof -
  let ?names = "sort (filter (\<lambda>file. endsWith file (js ''.test'')) files)"
  have "fst (getTestFiles P this s) = Inr (map (path_join P (testsDir this)) ?names)"
    using assms by (simp add: getTestFiles_def)
  moreover have "sorted ?names" by simp
  moreover have "mset ?names = mset (filter (\<lambda>file. endsWith file (js ''.test'')) files)"
    by simp
  moreover have "length ?names = length (filter (\<lambda>file. endsWith file (js ''.test'')) files)"
    by simp
  moreover have "fst (getTestFiles P this s') = Inr (map (path_join P (testsDir this)) ?names)"
    if "readdir P (testsDir this) (world s') = (Inr files', w')" and "mset files' = mset files"
    for s' files' w'
  proof -
    have "mset (filter (\<lambda>file. endsWith file (js ''.test'')) files')
          = mset (filter (\<lambda>file. endsWith file (js ''.test'')) files)"
      using that(2) by simp
    moreover have "sorted ?names" by simp
    ultimately have "sort (filter (\<lambda>file. endsWith file (js ''.test'')) files') = ?names"
      by (simp add: properties_for_sort)
    then show ?thesis using that(1) by (simp add: getTestFiles_def)
  qed
  ultimately show ?thesis by blast
qed

theorem getTestFiles_sorted_matching_witness:
  "fst (getTestFiles demoPlatform demoAgent initialState)
     = Inr [js ''tests/1.test'', js ''tests/2.test'']
   \<and> readdir demoPlatform (testsDir demoAgent) (world (initialState\<lparr>world := 5\<rparr>))
     = (Inr [js ''notes.txt'', js ''1.test'', js ''2.test''], 6)
   \<and> fst (getTestFiles demoPlatform demoAgent (initialState\<lparr>world := 5\<rparr>))
     = Inr [js ''tests/1.test'', js ''tests/2.test'']"
proof -
  have rd: "readdir demoPlatform (testsDir demoAgent) (world initialState)
        = (Inr [js ''2.test'', js ''notes.txt'', js ''1.test''], Suc (world initialState))"
    by (simp add: demoPlatform_def demoAgent_def initialState_def)
  have rd': "readdir demoPlatform (testsDir demoAgent) (world (initialState\<lparr>world := 5\<rparr>))
        = (Inr [js ''notes.txt'', js ''1.test'', js ''2.test''], 6)"
    by (simp add: demoPlatform_def demoAgent_def)
  have same: "mset [js ''notes.txt'', js ''1.test'', js ''2.test'']
              = mset [js ''2.test'', js ''notes.txt'', js ''1.test'']"
    by simp
  obtain names where
    g: "fst (getTestFiles demoPlatform demoAgent initialState)
        = Inr (map (path_join demoPlatform (testsDir demoAgent)) names)"
    and "sorted names"
    and "mset names = mset (filter (\<lambda>file. endsWith file (js ''.test''))
                              [js ''2.test'', js ''notes.txt'', js ''1.test''])"
    and other: "\<forall>s' files' w'.
        readdir demoPlatform (testsDir demoAgent) (world s') = (Inr files', w')
          \<and> mset files' = mset [js ''2.test'', js ''notes.txt'', js ''1.test'']
        \<longrightarrow> fst (getTestFiles demoPlatform demoAgent s')
            = Inr (map (path_join demoPlatform (testsDir demoAgent)) names)"
    using getTestFiles_sorted_matching [OF rd] by blast
  then have "mset names = mset [js ''1.test'', js ''2.test'']"
    by (simp add: endsWith_def js_def)
  then have "sort [js ''1.test'', js ''2.test''] = names"
    using \<open>sorted names\<close> by (rule properties_for_sort)
  moreover have "sort [js ''1.test'', js ''2.test''] = [js ''1.test'', js ''2.test'']"
    by (simp add: js_def)
  ultimately have "names = [js ''1.test'', js ''2.test'']" by simp
  then have paths: "map (path_join demoPlatform (testsDir demoAgent)) names
                    = [js ''tests/1.test'', js ''tests/2.test'']"
    by (simp add: demoPlatform_def demoAgent_def js_def)
  from other rd' same
  have "fst (getTestFiles demoPlatform demoAgent (initialState\<lparr>world := 5\<rparr>))
            = Inr (map (path_join demoPlatform (testsDir demoAgent)) names)"
    by blast
  with g paths rd' show ?thesis by simp
qed

section \<open>Properties of the report\<close>

lemma stdout_console_log: "stdout (console_log l s) = stdout s @ [l]"
  by (simp add: console_log_def)

lemma printSummary_each_eq:
  "printSummary_each r s = s\<lparr>stdout := stdout s @ statusLine r # errorLines r\<rparr>"
  by (cases "error r")
     (simp_all add: printSummary_each_def console_log_def statusLine_def errorLines_def Let_def)

lemma fold_printSummary_each:
  "fold printSummary_each results s
   = s\<lparr>stdout := stdout s @ concat (map (\<lambda>r. statusLine r # errorLines r) results)\<rparr>"
proof (induction results arbitrary: s)
  case Nil
  then show ?case by simp
next
  case (Cons r results)
  then show ?case by (simp add: printSummary_each_eq)
qed

lemma failed_count:
  "int (length results) - int (length (filter success results))
   = int (length (filter (\<lambda>r. \<not> success r) results))"
  using sum_length_filter_compl [of success results] by simp

text \<open>
  C9, as the code has it. \<open>printSummary\<close> appends to the console the three header lines,
  then for each result, in order, its status line (passed or failed, ordinal, file name)
  followed by an error line exactly when the result has a non-empty error message,
  whatever its success flag, then the tally; it changes nothing else, and what it appends
  is a function of the results alone.
\<close>

theorem printSummary_report:
  "printSummary results s = s\<lparr>stdout := stdout s @ report results\<rparr>"
  by (simp add: printSummary_def fold_printSummary_each console_log_def report_def tallyLine_def
      failed_count Let_def)

theorem printSummary_report_witness:
  "stdout (printSummary
             [\<lparr>testFile = js ''1.test'', testNumber = 1, prompt = js ''open example.com'',
               result = Some (js ''{ok:true}''), success = True, error = None\<rparr>,
              \<lparr>testFile = js ''2.test'', testNumber = 2, prompt = [], result = None,
               success = False, error = Some (js ''timeout'')\<rparr>] initialState)
   = [js ''\<newline>'' @ repeat (js ''='') 60, js ''TEST SUMMARY'', repeat (js ''='') 60,
      [0x2705] @ js '' PASSED - Test #1: 1.test'',
      [0x274C] @ js '' FAILED - Test #2: 2.test'',
      js ''  Error: timeout'',
      js ''\<newline>Total: 2 | Passed: 1 | Failed: 1'']"
  using printSummary_report
          [where ?s = initialState and ?results =
             "[\<lparr>testFile = js ''1.test'', testNumber = 1, prompt = js ''open example.com'',
               result = Some (js ''{ok:true}''), success = True, error = None\<rparr>,
              \<lparr>testFile = js ''2.test'', testNumber = 2, prompt = [], result = None,
               success = False, error = Some (js ''timeout'')\<rparr>]"]
  by (simp add: report_def statusLine_def errorLines_def tallyLine_def numberToString_def
      initialState_def js_def)

text \<open>
  C9 as stated fails: a failed result whose error message is the empty string, as
  \<open>runSingleTest\<close> returns when the gateway throws \<open>new Error("")\<close>, gets its status line
  and no error line.
\<close>

theorem printSummary_failed_without_error_line_counterexample:
  "stdout (printSummary
             [\<lparr>testFile = js ''1.test'', testNumber = 1, prompt = [], result = (None :: jsstring option),
               success = False, error = Some []\<rparr>] initialState)
   = [js ''\<newline>'' @ repeat (js ''='') 60, js ''TEST SUMMARY'', repeat (js ''='') 60,
      [0x274C] @ js '' FAILED - Test #1: 1.test'',
      js ''\<newline>Total: 1 | Passed: 0 | Failed: 1'']"
  by (simp add: printSummary_def printSummary_each_def console_log_def initialState_def
      numberToString_def js_def Let_def)

end
